theory Spec2Isabelle
  imports Main
begin

section \<open>Tutorial steps and their canonical order\<close>

text \<open>
  Modelled from the spec: the module \<^verbatim>\<open>models/tutorial-step\<close>, which declares
  \<^verbatim>\<open>TutorialStep\<close>, \<^verbatim>\<open>ValidTutorialStep\<close> and \<^verbatim>\<open>orderedTutorialSteps\<close>, is imported by
  \<^verbatim>\<open>tutorial-panel.tsx\<close> and is not part of the sources at hand. The spec gives a fixed,
  totally ordered sequence of six named stages: PickEditor, CreateBranch, EditFile,
  MakeCommit, PushBranch, OpenPullRequest.
\<close>

datatype TutorialStep =
  PickEditor | CreateBranch | EditFile | MakeCommit | PushBranch | OpenPullRequest

type_synonym ValidTutorialStep = TutorialStep

definition orderedTutorialSteps :: "ValidTutorialStep list" where
  "orderedTutorialSteps =
     [PickEditor, CreateBranch, EditFile, MakeCommit, PushBranch, OpenPullRequest]"

text \<open>
  \<^verbatim>\<open>Array.prototype.indexOf\<close>: the index of the first element strictly equal to the
  argument, and \<open>-1\<close> when there is none.
\<close>

fun indexOfFrom :: "'a list \<Rightarrow> 'a \<Rightarrow> int \<Rightarrow> int" where
  "indexOfFrom [] x i = - 1"
| "indexOfFrom (y # ys) x i = (if y = x then i else indexOfFrom ys x (i + 1))"

definition indexOf :: "'a list \<Rightarrow> 'a \<Rightarrow> int" where
  "indexOf xs x = indexOfFrom xs x 0"

text \<open>
  The spec's \<open>index(step)\<close>: the position of a step in the canonical sequence, counted
  from zero. This definition follows the spec's words; the code never calls it, it goes
  through \<open>indexOf\<close> on \<open>orderedTutorialSteps\<close>.
\<close>

fun step_index :: "ValidTutorialStep \<Rightarrow> nat" where
  "step_index PickEditor = 0"
| "step_index CreateBranch = 1"
| "step_index EditFile = 2"
| "step_index MakeCommit = 3"
| "step_index PushBranch = 4"
| "step_index OpenPullRequest = 5"

section \<open>External collaborators\<close>

text \<open>
  The dispatcher is owned by the rest of the application. A call on it is recorded as a
  value; a handler of a component returns the calls it makes, in order.
\<close>

record Repository =
  path :: string

datatype DispatcherCall =
    OpenInExternalEditor string
  | CreatePullRequest Repository
  | SkipPickEditorTutorialStep Repository
  | SkipCreatePullRequestTutorialStep Repository
  | SetStatsOptOut bool

section \<open>TutorialPanel\<close>

record ITutorialPanelProps =
  repository :: Repository
  externalEditorLabel :: "string option"
  currentTutorialStep :: ValidTutorialStep

record ITutorialPanelState =
  currentlyOpenSectionId :: ValidTutorialStep

record TutorialPanel =
  props :: ITutorialPanelProps
  state :: ITutorialPanelState

definition constructor :: "ITutorialPanelProps \<Rightarrow> TutorialPanel" where
  "constructor p =
     \<lparr>props = p, state = \<lparr>currentlyOpenSectionId = currentTutorialStep p\<rparr>\<rparr>"

text \<open>\<^verbatim>\<open>path.join(dir, 'README.md')\<close> for a directory path without a trailing separator.\<close>

definition join :: "string \<Rightarrow> string \<Rightarrow> string" where
  "join dir name = dir @ ''/'' @ name"

definition openTutorialFileInEditor :: "TutorialPanel \<Rightarrow> DispatcherCall list" where
  "openTutorialFileInEditor c =
     [OpenInExternalEditor (join (path (repository (props c))) ''README.md'')]"

definition openPullRequest :: "TutorialPanel \<Rightarrow> DispatcherCall list" where
  "openPullRequest c = [CreatePullRequest (repository (props c))]"

definition skipEditorInstall :: "TutorialPanel \<Rightarrow> DispatcherCall list" where
  "skipEditorInstall c = [SkipPickEditorTutorialStep (repository (props c))]"

definition skipCreatePR :: "TutorialPanel \<Rightarrow> DispatcherCall list" where
  "skipCreatePR c = [SkipCreatePullRequestTutorialStep (repository (props c))]"

definition isStepComplete :: "TutorialPanel \<Rightarrow> ValidTutorialStep \<Rightarrow> bool" where
  "isStepComplete c step \<longleftrightarrow>
     indexOf orderedTutorialSteps step
       < indexOf orderedTutorialSteps (currentTutorialStep (props c))"

definition isStepNextTodo :: "TutorialPanel \<Rightarrow> ValidTutorialStep \<Rightarrow> bool" where
  "isStepNextTodo c step \<longleftrightarrow> step = currentTutorialStep (props c)"

text \<open>
  \<^verbatim>\<open>componentWillReceiveProps\<close> runs while \<^verbatim>\<open>this.props\<close> still holds the previous
  properties; the framework installs the new ones afterwards (\<open>receiveProps\<close>).
\<close>

definition componentWillReceiveProps ::
    "TutorialPanel \<Rightarrow> ITutorialPanelProps \<Rightarrow> TutorialPanel" where
  "componentWillReceiveProps c nextProps =
     (if currentTutorialStep (props c) \<noteq> currentTutorialStep nextProps
      then c\<lparr>state := \<lparr>currentlyOpenSectionId = currentTutorialStep nextProps\<rparr>\<rparr>
      else c)"

definition receiveProps :: "TutorialPanel \<Rightarrow> ITutorialPanelProps \<Rightarrow> TutorialPanel" where
  "receiveProps c nextProps = (componentWillReceiveProps c nextProps)\<lparr>props := nextProps\<rparr>"

definition onStepSummaryClick :: "ValidTutorialStep \<Rightarrow> TutorialPanel \<Rightarrow> TutorialPanel" where
  "onStepSummaryClick sid c = c\<lparr>state := \<lparr>currentlyOpenSectionId = sid\<rparr>\<rparr>"

subsection \<open>TutorialStepInstructions\<close>

text \<open>
  An element with a click handler carries the dispatcher calls the handler makes. Of the
  children of a section only these elements are kept (a link button, or a button with
  its \<^verbatim>\<open>disabled\<close> flag); the description text, the links to web sites and the keyboard
  hints are the same in every state and are left out.
\<close>

datatype SkipLinkButton = SkipLinkButton "DispatcherCall list"

datatype Action = LinkButton "DispatcherCall list" | Button "DispatcherCall list" bool

record ITutorialListItemProps =
  summaryText :: string
  isComplete :: "ValidTutorialStep \<Rightarrow> bool"
  sectionId :: ValidTutorialStep
  isNextStepTodo :: "ValidTutorialStep \<Rightarrow> bool"
  openSectionId :: ValidTutorialStep
  skipLinkButton :: "SkipLinkButton option"
  children :: "Action list"
  onSummaryClick :: "ValidTutorialStep \<Rightarrow> TutorialPanel \<Rightarrow> TutorialPanel"

datatype StepIcon = GreenCircle | BlueCircle int | EmptyCircle int

datatype HangRight = SkipLink SkipLinkButton | ChevronIcon

record Summary =
  icon :: StepIcon
  summary_text :: string
  hang_right :: HangRight

record ListItem =
  li_key :: ValidTutorialStep
  details_open :: bool
  summary :: Summary
  contents :: "Action list"

definition shouldShowSkipLink :: "ITutorialListItemProps \<Rightarrow> bool" where
  "shouldShowSkipLink item \<longleftrightarrow>
     skipLinkButton item \<noteq> None \<and>
     openSectionId item = sectionId item \<and>
     isNextStepTodo item (sectionId item)"

definition renderTutorialStepIcon :: "ITutorialListItemProps \<Rightarrow> StepIcon" where
  "renderTutorialStepIcon item =
     (if isComplete item (sectionId item) then GreenCircle
      else let stepNumber = indexOf orderedTutorialSteps (sectionId item) + 1
           in if isNextStepTodo item (sectionId item)
              then BlueCircle stepNumber
              else EmptyCircle stepNumber)"

definition renderSummary :: "ITutorialListItemProps \<Rightarrow> Summary" where
  "renderSummary item =
     \<lparr>icon = renderTutorialStepIcon item,
      summary_text = summaryText item,
      hang_right =
        (case skipLinkButton item of
           Some b \<Rightarrow> if shouldShowSkipLink item then SkipLink b else ChevronIcon
         | None \<Rightarrow> ChevronIcon)\<rparr>"

definition renderInstructions :: "ITutorialListItemProps \<Rightarrow> ListItem" where
  "renderInstructions item =
     \<lparr>li_key = sectionId item,
      details_open = (sectionId item = openSectionId item),
      summary = renderSummary item,
      contents = children item\<rparr>"

text \<open>\<^verbatim>\<open>TutorialStepInstructions.onSummaryClick\<close>: forwards the section's own identifier.\<close>

definition instructionsOnSummaryClick ::
    "ITutorialListItemProps \<Rightarrow> TutorialPanel \<Rightarrow> TutorialPanel" where
  "instructionsOnSummaryClick item c = onSummaryClick item (sectionId item) c"

subsection \<open>Rendering the panel\<close>

text \<open>
  A string in a condition counts as true when it is present and not empty.
\<close>

fun truthy :: "string option \<Rightarrow> bool" where
  "truthy None = False"
| "truthy (Some l) = (l \<noteq> [])"

text \<open>
  The properties every section receives from the panel, with the parts that differ from
  section to section as arguments.
\<close>

definition instructions ::
    "TutorialPanel \<Rightarrow> string \<Rightarrow> ValidTutorialStep \<Rightarrow> SkipLinkButton option
       \<Rightarrow> Action list \<Rightarrow> ITutorialListItemProps" where
  "instructions c txt sid skip acts =
     \<lparr>summaryText = txt,
      isComplete = isStepComplete c,
      sectionId = sid,
      isNextStepTodo = isStepNextTodo c,
      openSectionId = currentlyOpenSectionId (state c),
      skipLinkButton = skip,
      children = acts,
      onSummaryClick = onStepSummaryClick\<rparr>"

definition renderItems :: "TutorialPanel \<Rightarrow> ITutorialListItemProps list" where
  "renderItems c =
     [instructions c ''Install a text editor'' PickEditor
        (Some (SkipLinkButton (skipEditorInstall c)))
        (if \<not> isStepComplete c PickEditor then [LinkButton (skipEditorInstall c)] else []),
      instructions c ''Make a branch'' CreateBranch None [],
      instructions c ''Edit a file'' EditFile None
        (if truthy (externalEditorLabel (props c))
         then [Button (openTutorialFileInEditor c) (\<not> truthy (externalEditorLabel (props c)))]
         else []),
      instructions c ''Make a commit'' MakeCommit None [],
      instructions c ''Push to GitHub'' PushBranch None [],
      instructions c ''Open a pull request'' OpenPullRequest
        (Some (SkipLinkButton (skipCreatePR c)))
        [Button (openPullRequest c) False]]"

definition render :: "TutorialPanel \<Rightarrow> ListItem list" where
  "render c = map renderInstructions (renderItems c)"

subsection \<open>Events\<close>

text \<open>
  The two events that reach the panel: a click on the summary of a section, and a
  property update from the owner of the application state. A click bubbles from the
  \<^verbatim>\<open>details\<close> element to the enclosing \<^verbatim>\<open>li\<close>; both carry the same handler, so it
  runs twice.
\<close>

datatype Event = SummaryClick ValidTutorialStep | PropsUpdate ITutorialPanelProps

definition click :: "TutorialPanel \<Rightarrow> ValidTutorialStep \<Rightarrow> TutorialPanel" where
  "click c sid =
     (case find (\<lambda>item. sectionId item = sid) (renderItems c) of
        None \<Rightarrow> c
      | Some item \<Rightarrow> instructionsOnSummaryClick item (instructionsOnSummaryClick item c))"

fun step :: "TutorialPanel \<Rightarrow> Event \<Rightarrow> TutorialPanel" where
  "step c (SummaryClick sid) = click c sid"
| "step c (PropsUpdate nextProps) = receiveProps c nextProps"

definition run :: "TutorialPanel \<Rightarrow> Event list \<Rightarrow> TutorialPanel" where
  "run c evs = foldl step c evs"

subsection \<open>Reading the rendered panel\<close>

text \<open>
  The list item rendered for a section, found by its key, and two observations on it:
  whether its summary ends in the skip button (rather than the chevron), and its status
  icon.
\<close>

definition renderedItem :: "TutorialPanel \<Rightarrow> ValidTutorialStep \<Rightarrow> ListItem option" where
  "renderedItem c sid = find (\<lambda>li. li_key li = sid) (render c)"

definition skipLinkShown :: "TutorialPanel \<Rightarrow> ValidTutorialStep \<Rightarrow> bool" where
  "skipLinkShown c sid =
     (case renderedItem c sid of
        None \<Rightarrow> False
      | Some li \<Rightarrow> (case hang_right (summary li) of SkipLink b \<Rightarrow> True | ChevronIcon \<Rightarrow> False))"

definition renderedIcon :: "TutorialPanel \<Rightarrow> ValidTutorialStep \<Rightarrow> StepIcon option" where
  "renderedIcon c sid = map_option (\<lambda>li. icon (summary li)) (renderedItem c sid)"

section \<open>UsageOptOut\<close>

text \<open>
  Modelled from the spec: \<^verbatim>\<open>WelcomeStep\<close> is declared in \<^verbatim>\<open>./welcome\<close>, outside the sources
  at hand. The component names one member, \<^verbatim>\<open>ConfigureGit\<close> (the spec's git-configuration
  step); the members it does not name are kept apart under \<open>OtherWelcomeStep\<close>.
\<close>

datatype WelcomeStep = ConfigureGit | OtherWelcomeStep nat

text \<open>
  Modelled from the spec: \<^verbatim>\<open>Checkbox\<close> and \<^verbatim>\<open>CheckboxValue\<close> are declared in
  \<^verbatim>\<open>../lib/checkbox\<close>, outside the sources at hand. The component uses the values
  \<^verbatim>\<open>On\<close> and \<^verbatim>\<open>Off\<close>; the spec reads \<^verbatim>\<open>On\<close> as the checked box.
\<close>

datatype CheckboxValue = On | Off

definition checked :: "CheckboxValue \<Rightarrow> bool" where
  "checked v \<longleftrightarrow> v = On"

text \<open>
  The component has no state of its own (its state type is \<^verbatim>\<open>void\<close>). All a handler
  does is call a collaborator handed in through the properties: the dispatcher, the
  \<^verbatim>\<open>advance\<close> callback or the \<^verbatim>\<open>done\<close> callback. A handler returns these calls in order.
\<close>

datatype Effect = Dispatch DispatcherCall | Advance WelcomeStep | Done

record IUsageOptOutProps =
  optOut :: bool

record FormEvent =
  currentTarget_checked :: bool

definition onChange :: "IUsageOptOutProps \<Rightarrow> FormEvent \<Rightarrow> Effect list" where
  "onChange p event =
     (let v = currentTarget_checked event in [Dispatch (SetStatsOptOut (\<not> v))])"

definition cancel :: "IUsageOptOutProps \<Rightarrow> Effect list" where
  "cancel p = [Advance ConfigureGit]"

definition finish :: "IUsageOptOutProps \<Rightarrow> Effect list" where
  "finish p = [Done]"

record UsageOptOutForm =
  form_onSubmit :: "Effect list"
  checkbox_value :: CheckboxValue
  checkbox_onChange :: "FormEvent \<Rightarrow> Effect list"
  cancel_onClick :: "Effect list"

definition renderUsageOptOut :: "IUsageOptOutProps \<Rightarrow> UsageOptOutForm" where
  "renderUsageOptOut p =
     \<lparr>form_onSubmit = finish p,
      checkbox_value = (if optOut p then Off else On),
      checkbox_onChange = onChange p,
      cancel_onClick = cancel p\<rparr>"

fun isSetStatsOptOut :: "Effect \<Rightarrow> bool" where
  "isSetStatsOptOut (Dispatch (SetStatsOptOut b)) = True"
| "isSetStatsOptOut e = False"

section \<open>Properties of the step order\<close>

lemma indexOf_ordered: "indexOf orderedTutorialSteps s = int (step_index s)"
  by (cases s) (simp_all add: indexOf_def orderedTutorialSteps_def)

text \<open>
  C2. For every step and every externally supplied current step, \<open>isStepComplete\<close>
  holds if and only if the step's position in the canonical sequence is strictly less
  than the position of the current step.
\<close>

theorem isStepComplete_iff_index_less:
  "isStepComplete c s \<longleftrightarrow> step_index s < step_index (currentTutorialStep (props c))"
  by (simp add: isStepComplete_def indexOf_ordered)

section \<open>The expanded section\<close>

lemma click_eq: "click c sid = onStepSummaryClick sid c"
  by (cases sid)
    (simp_all add: click_def renderItems_def instructions_def
      instructionsOnSummaryClick_def onStepSummaryClick_def)

lemma run_unchanged_step:
  "\<forall>np \<in> set nps. currentTutorialStep np = currentTutorialStep (props c) \<Longrightarrow>
     state (run c (map PropsUpdate nps)) = state c"
proof (induction nps arbitrary: c)
  case Nil
  show ?case by (simp add: run_def)
next
  case (Cons np nps)
  let ?c' = "receiveProps c np"
  from Cons.prems have same: "currentTutorialStep np = currentTutorialStep (props c)"
    by simp
  then have st: "state ?c' = state c" and pr: "props ?c' = np"
    by (simp_all add: receiveProps_def componentWillReceiveProps_def)
  from Cons.prems same pr
  have "\<forall>np' \<in> set nps. currentTutorialStep np' = currentTutorialStep (props ?c')"
    by simp
  then have "state (run ?c' (map PropsUpdate nps)) = state ?c'"
    by (rule Cons.IH)
  with st show ?case by (simp add: run_def)
qed

lemma open_sections:
  "map li_key (filter details_open (render c)) = [currentlyOpenSectionId (state c)]"
  by (cases "currentlyOpenSectionId (state c)")
    (simp_all add: render_def renderItems_def instructions_def renderInstructions_def)

text \<open>
  C1. The initially expanded step is the initially supplied current step. On a property
  update the expanded step becomes the newly supplied current step exactly when that
  differs from the previous one, whatever was expanded before; otherwise the expanded
  step is left as it is.
\<close>

theorem expansion_state_transition:
  "currentlyOpenSectionId (state (constructor p)) = currentTutorialStep p \<and>
   currentlyOpenSectionId (state (receiveProps c nextProps)) =
     (if currentTutorialStep nextProps \<noteq> currentTutorialStep (props c)
      then currentTutorialStep nextProps
      else currentlyOpenSectionId (state c)) \<and>
   props (receiveProps c nextProps) = nextProps"
  by (simp add: constructor_def receiveProps_def componentWillReceiveProps_def)

text \<open>
  C5. A click on the summary of any step \<open>X\<close> makes \<open>X\<close> the expanded step, whatever
  the current step and the step expanded before; \<open>X\<close> stays expanded through every
  run of property updates that supply the same current step as before.
\<close>

theorem manual_expansion:
  "currentlyOpenSectionId (state (step c (SummaryClick X))) = X \<and>
   props (step c (SummaryClick X)) = props c \<and>
   ((\<forall>np \<in> set nps. currentTutorialStep np = currentTutorialStep (props c)) \<longrightarrow>
      currentlyOpenSectionId
        (state (run (step c (SummaryClick X)) (map PropsUpdate nps))) = X)"
proof -
  let ?c' = "step c (SummaryClick X)"
  have c': "?c' = onStepSummaryClick X c"
    by (simp add: click_eq)
  then have opened: "currentlyOpenSectionId (state ?c') = X" and pr: "props ?c' = props c"
    by (simp_all add: onStepSummaryClick_def)
  have "currentlyOpenSectionId (state (run ?c' (map PropsUpdate nps))) = X"
    if "\<forall>np \<in> set nps. currentTutorialStep np = currentTutorialStep (props c)"
  proof -
    from that pr
    have "\<forall>np \<in> set nps. currentTutorialStep np = currentTutorialStep (props ?c')"
      by simp
    then have "state (run ?c' (map PropsUpdate nps)) = state ?c'"
      by (rule run_unchanged_step)
    with opened show ?thesis by simp
  qed
  with opened pr show ?thesis by blast
qed

theorem manual_expansion_witness:
  "currentlyOpenSectionId (state (step
      (constructor \<lparr>repository = \<lparr>path = ''/r''\<rparr>, externalEditorLabel = None,
         currentTutorialStep = EditFile\<rparr>) (SummaryClick PickEditor))) = PickEditor \<and>
   currentlyOpenSectionId (state (run
      (step (constructor \<lparr>repository = \<lparr>path = ''/r''\<rparr>, externalEditorLabel = None,
         currentTutorialStep = EditFile\<rparr>) (SummaryClick PickEditor))
      (map PropsUpdate [\<lparr>repository = \<lparr>path = ''/r''\<rparr>, externalEditorLabel = Some ''Atom'',
         currentTutorialStep = EditFile\<rparr>]))) = PickEditor"
proof -
  let ?c = "constructor \<lparr>repository = \<lparr>path = ''/r''\<rparr>, externalEditorLabel = None,
              currentTutorialStep = EditFile\<rparr>"
  let ?nps = "[\<lparr>repository = \<lparr>path = ''/r''\<rparr>, externalEditorLabel = Some ''Atom'',
                 currentTutorialStep = EditFile\<rparr>]"
  have same: "\<forall>np \<in> set ?nps. currentTutorialStep np = currentTutorialStep (props ?c)"
    by (simp add: constructor_def)
  from manual_expansion [of ?c PickEditor ?nps] same show ?thesis
    by blast
qed

text \<open>
  C9. In every state reached from the constructor by summary clicks and property
  updates, at most one section is rendered open, and an open section is the one whose
  identifier is the stored expanded step.
\<close>

theorem single_open_section:
  "length (filter details_open (render (run (constructor p) evs))) \<le> 1 \<and>
   map li_key (filter details_open (render (run (constructor p) evs))) =
     [currentlyOpenSectionId (state (run (constructor p) evs))]"
proof -
  let ?c = "run (constructor p) evs"
  have keys: "map li_key (filter details_open (render ?c)) =
      [currentlyOpenSectionId (state ?c)]"
    by (rule open_sections)
  then have "length (map li_key (filter details_open (render ?c))) = 1"
    by simp
  then have "length (filter details_open (render ?c)) \<le> 1"
    by simp
  with keys show ?thesis by simp
qed

section \<open>Status of a step\<close>

text \<open>
  C3. Whatever the current step, \<open>isStepNextTodo\<close> holds for exactly one of the six
  steps, the current one, and fails for the other five.
\<close>

theorem isStepNextTodo_exactly_current:
  "filter (isStepNextTodo c) orderedTutorialSteps = [currentTutorialStep (props c)] \<and>
   length (filter (\<lambda>s. \<not> isStepNextTodo c s) orderedTutorialSteps) = 5 \<and>
   (isStepNextTodo c s \<longleftrightarrow> s = currentTutorialStep (props c))"
  by (cases "currentTutorialStep (props c)")
    (simp_all add: isStepNextTodo_def orderedTutorialSteps_def)

lemma skipLinkShown_iff:
  "skipLinkShown c s \<longleftrightarrow>
     (s = PickEditor \<or> s = OpenPullRequest) \<and>
     currentlyOpenSectionId (state c) = s \<and> s = currentTutorialStep (props c)"
  by (cases s)
    (auto simp add: skipLinkShown_def renderedItem_def render_def renderItems_def
      instructions_def renderInstructions_def renderSummary_def shouldShowSkipLink_def
      isStepNextTodo_def)

text \<open>
  C4. The summary of the PickEditor section ends in the skip button if and only if
  PickEditor is the expanded step and PickEditor is the current step; likewise for
  OpenPullRequest. For each of the other four steps the skip button is never shown,
  whatever the expanded step and the current step.
\<close>

theorem skip_link_visibility:
  "(skipLinkShown c PickEditor \<longleftrightarrow>
      currentlyOpenSectionId (state c) = PickEditor \<and>
      PickEditor = currentTutorialStep (props c)) \<and>
   (skipLinkShown c OpenPullRequest \<longleftrightarrow>
      currentlyOpenSectionId (state c) = OpenPullRequest \<and>
      OpenPullRequest = currentTutorialStep (props c)) \<and>
   \<not> skipLinkShown c CreateBranch \<and> \<not> skipLinkShown c EditFile \<and>
   \<not> skipLinkShown c MakeCommit \<and> \<not> skipLinkShown c PushBranch"
  by (simp add: skipLinkShown_iff)

text \<open>
  C8. The status icon of a step is the completed indicator if the step is complete;
  otherwise the highlighted indicator with the step's position counted from one if the
  step is the next to do; otherwise the plain indicator with the same number.
\<close>

theorem status_icon_selection:
  "renderedIcon c s =
     Some (if isStepComplete c s then GreenCircle
           else if isStepNextTodo c s then BlueCircle (int (step_index s) + 1)
           else EmptyCircle (int (step_index s) + 1))"
  by (cases s)
    (simp_all add: renderedIcon_def renderedItem_def render_def renderItems_def
      instructions_def renderInstructions_def renderSummary_def
      renderTutorialStepIcon_def indexOf_ordered)

text \<open>
  C10. No step is both complete and next to do. Hence the icon branches do not overlap:
  the completed indicator is shown exactly for complete steps, the highlighted one
  exactly for the step next to do, the plain one exactly for steps that are neither.
\<close>

theorem complete_and_next_exclusive:
  "\<not> (isStepComplete c s \<and> isStepNextTodo c s) \<and>
   (renderedIcon c s = Some GreenCircle \<longleftrightarrow> isStepComplete c s) \<and>
   (renderedIcon c s = Some (BlueCircle (int (step_index s) + 1)) \<longleftrightarrow> isStepNextTodo c s) \<and>
   (renderedIcon c s = Some (EmptyCircle (int (step_index s) + 1)) \<longleftrightarrow>
      \<not> isStepComplete c s \<and> \<not> isStepNextTodo c s)"
proof -
  have excl: "\<not> (isStepComplete c s \<and> isStepNextTodo c s)"
    by (auto simp add: isStepComplete_def isStepNextTodo_def)
  have ic: "renderedIcon c s =
     Some (if isStepComplete c s then GreenCircle
           else if isStepNextTodo c s then BlueCircle (int (step_index s) + 1)
           else EmptyCircle (int (step_index s) + 1))"
    by (cases s)
      (simp_all add: renderedIcon_def renderedItem_def render_def renderItems_def
        instructions_def renderInstructions_def renderSummary_def
        renderTutorialStepIcon_def indexOf_ordered)
  from excl show ?thesis unfolding ic by auto
qed

section \<open>The opt-out form\<close>

text \<open>
  C6. The checkbox is checked if and only if the supplied opt-out flag is false. A
  toggle makes exactly one call, \<open>setStatsOptOut\<close> on the dispatcher, with the negation
  of the box's new checked value, and nothing else.
\<close>

theorem opt_out_checkbox:
  "(checked (checkbox_value (renderUsageOptOut p)) \<longleftrightarrow> \<not> optOut p) \<and>
   checkbox_onChange (renderUsageOptOut p) ev =
     [Dispatch (SetStatsOptOut (\<not> currentTarget_checked ev))] \<and>
   length (filter isSetStatsOptOut (checkbox_onChange (renderUsageOptOut p) ev)) = 1 \<and>
   checkbox_onChange (renderUsageOptOut p) \<lparr>currentTarget_checked = True\<rparr> =
     [Dispatch (SetStatsOptOut False)] \<and>
   checkbox_onChange (renderUsageOptOut p) \<lparr>currentTarget_checked = False\<rparr> =
     [Dispatch (SetStatsOptOut True)]"
  by (simp add: renderUsageOptOut_def onChange_def checked_def)

text \<open>
  C7. Submitting the form calls \<open>done\<close> once and does nothing else; cancelling calls
  \<open>advance\<close> once, with the git-configuration step, and does nothing else. Neither
  depends on the opt-out flag.
\<close>

theorem opt_out_submit_cancel:
  "form_onSubmit (renderUsageOptOut p) = [Done] \<and>
   cancel_onClick (renderUsageOptOut p) = [Advance ConfigureGit] \<and>
   form_onSubmit (renderUsageOptOut p) = form_onSubmit (renderUsageOptOut q) \<and>
   cancel_onClick (renderUsageOptOut p) = cancel_onClick (renderUsageOptOut q)"
  by (simp add: renderUsageOptOut_def finish_def cancel_def)

end
